theory Spec2Isabelle
  imports Complex_Main "HOL-Library.Sublist"
begin

section \<open>JSON values and Python dictionaries\<close>

text \<open>
  The service of \<^verbatim>\<open>src/agent/main.py\<close> receives and answers JSON. A decoded JSON value
  is a Python value: \<^verbatim>\<open>None\<close>, a \<^verbatim>\<open>bool\<close>, an \<^verbatim>\<open>int\<close>, a \<^verbatim>\<open>float\<close>, a \<^verbatim>\<open>str\<close>,
  a \<^verbatim>\<open>list\<close> or a \<^verbatim>\<open>dict\<close> with string keys. A dictionary is kept as the list of
  its items (its keys are distinct); \<open>map_of\<close> is the lookup.

  A finite \<^verbatim>\<open>float\<close> is \<open>JFloat\<close> of the decimal number it denotes (\<^verbatim>\<open>0.95\<close>,
  \<^verbatim>\<open>0.0\<close>, \<^verbatim>\<open>1.0\<close> in the source). Python's decoder also gives the floats that are
  not finite: \<^verbatim>\<open>inf\<close> for \<^verbatim>\<open>1e309\<close> or \<^verbatim>\<open>Infinity\<close>, \<^verbatim>\<open>-inf\<close>, and \<^verbatim>\<open>nan\<close> for
  \<^verbatim>\<open>NaN\<close>; they are \<open>JNonFinite\<close>.
\<close>

datatype nonfinite = PosInf | NegInf | NaN

datatype json =
    JNull
  | JBool bool
  | JInt int
  | JFloat real
  | JNonFinite nonfinite
  | JStr string
  | JArr "json list"
  | JObj "(string \<times> json) list"

type_synonym py_dict = "(string \<times> json) list"

text \<open>
  A Python \<^verbatim>\<open>str\<close> is a sequence of code points and may hold a lone surrogate
  (\<^verbatim>\<open>U+D800\<close> to \<^verbatim>\<open>U+DFFF\<close>; the decoder accepts the escape \<^verbatim>\<open>\ud800\<close> on its own).
  A \<open>string\<close> holds a \<^verbatim>\<open>str\<close> as the bytes of
  \<^verbatim>\<open>s.encode('utf-8', 'surrogatepass')\<close>: the UTF-8 bytes of every code point, a
  surrogate being written like any other code point of its size, as \<^verbatim>\<open>ED\<close> followed by
  a byte from \<^verbatim>\<open>A0\<close> to \<^verbatim>\<open>BF\<close> and one more byte. Concatenation of \<^verbatim>\<open>str\<close> is
  concatenation of these bytes. No other code point has \<^verbatim>\<open>ED\<close> followed by a byte
  from \<^verbatim>\<open>A0\<close> to \<^verbatim>\<open>BF\<close>, so this is the test for a \<^verbatim>\<open>str\<close> that
  \<^verbatim>\<open>s.encode('utf-8')\<close> refuses.
\<close>

fun has_surrogate :: "string \<Rightarrow> bool" where
  "has_surrogate (a # b # cs) =
     ((a = CHR 0xED \<and> 0xA0 \<le> (of_char b :: nat) \<and> (of_char b :: nat) \<le> 0xBF)
      \<or> has_surrogate (b # cs))"
| "has_surrogate cs = False"

text \<open>
  Whether a value can be written as the body of a \<^verbatim>\<open>JSONResponse\<close>, whose
  \<^verbatim>\<open>render\<close> is \<^verbatim>\<open>json.dumps(content, ensure_ascii=False, allow_nan=False, ...)\<close>
  followed by \<^verbatim>\<open>.encode("utf-8")\<close>: a float that is not finite makes \<^verbatim>\<open>dumps\<close> raise
  \<^verbatim>\<open>ValueError\<close>, and a lone surrogate in a string or in a key makes \<^verbatim>\<open>encode\<close> raise
  \<^verbatim>\<open>UnicodeEncodeError\<close>.
\<close>

fun json_renders :: "json \<Rightarrow> bool"
  and list_renders :: "json list \<Rightarrow> bool"
  and items_render :: "(string \<times> json) list \<Rightarrow> bool" where
  "json_renders JNull = True"
| "json_renders (JBool b) = True"
| "json_renders (JInt i) = True"
| "json_renders (JFloat x) = True"
| "json_renders (JNonFinite x) = False"
| "json_renders (JStr s) = (\<not> has_surrogate s)"
| "json_renders (JArr xs) = list_renders xs"
| "json_renders (JObj kvs) = items_render kvs"
| "list_renders [] = True"
| "list_renders (x # xs) = (json_renders x \<and> list_renders xs)"
| "items_render [] = True"
| "items_render ((k, v) # kvs) = (\<not> has_surrogate k \<and> json_renders v \<and> items_render kvs)"

section \<open>The request and response models\<close>

text \<open>
  \<^verbatim>\<open>class PipelineFailure(BaseModel)\<close>: four required \<^verbatim>\<open>str\<close> fields declared with
  \<^verbatim>\<open>Field(...)\<close> and no length constraint, and
  \<^verbatim>\<open>metadata: Optional[Dict[str, Any]] = Field(None, ...)\<close>.
\<close>

record PipelineFailure =
  stage :: string
  error_message :: string
  logs :: string
  timestamp :: string
  metadata :: "py_dict option"

text \<open>\<^verbatim>\<open>class HealingResult(BaseModel)\<close>.\<close>

record HealingResult =
  success :: bool
  fix_applied :: "string option"
  confidence :: real
  iterations :: int
  message :: string

text \<open>
  One entry of a pydantic \<^verbatim>\<open>ValidationError\<close>: the error type, the location of the
  field, the message and the offending input.
\<close>

record line_error =
  err_type :: string
  err_loc :: "string list"
  err_msg :: string
  err_input :: json

text \<open>
  The exceptions the handler can meet: the \<^verbatim>\<open>ValidationError\<close> of a model constructor
  (the model's name and the entries), and any other \<^verbatim>\<open>Exception\<close>, given by the text
  \<^verbatim>\<open>str(e)\<close> returns for it.
\<close>

datatype exn =
    ValidationError string "line_error list"
  | Exception string

subsection \<open>Validation of the request body against \<^verbatim>\<open>PipelineFailure\<close>\<close>

text \<open>
  A field declared \<^verbatim>\<open>str = Field(...)\<close> is required and takes a string only (pydantic 2
  does not turn a number into a string); a missing key and a value of another type
  are the errors \<^verbatim>\<open>missing\<close> and \<^verbatim>\<open>string_type\<close>. The location starts with
  \<^verbatim>\<open>body\<close>, as FastAPI reports it.
\<close>

definition required_str :: "py_dict \<Rightarrow> string \<Rightarrow> line_error list + string" where
  "required_str d name =
     (case map_of d name of
        None \<Rightarrow> Inl [\<lparr>err_type = ''missing'', err_loc = [''body'', name],
                     err_msg = ''Field required'', err_input = JObj d\<rparr>]
      | Some (JStr s) \<Rightarrow> Inr s
      | Some v \<Rightarrow> Inl [\<lparr>err_type = ''string_type'', err_loc = [''body'', name],
                       err_msg = ''Input should be a valid string'', err_input = v\<rparr>])"

text \<open>
  \<^verbatim>\<open>Optional[Dict[str, Any]] = Field(None, ...)\<close>: the key may be absent or \<^verbatim>\<open>null\<close>
  (both give \<^verbatim>\<open>None\<close>), or hold an object; the values of the object are not looked at.
\<close>

definition optional_dict :: "py_dict \<Rightarrow> string \<Rightarrow> line_error list + py_dict option" where
  "optional_dict d name =
     (case map_of d name of
        None \<Rightarrow> Inr None
      | Some JNull \<Rightarrow> Inr None
      | Some (JObj m) \<Rightarrow> Inr (Some m)
      | Some v \<Rightarrow> Inl [\<lparr>err_type = ''dict_type'', err_loc = [''body'', name],
                       err_msg = ''Input should be a valid dictionary'', err_input = v\<rparr>])"

definition errors_of :: "line_error list + 'a \<Rightarrow> line_error list" where
  "errors_of r = (case r of Inl es \<Rightarrow> es | Inr _ \<Rightarrow> [])"

text \<open>
  The fields are validated in the order of their declaration and every error is
  collected. Keys that the model does not declare are ignored. A body that is not an
  object, \<^verbatim>\<open>null\<close> included, is of the wrong type.
\<close>

definition PipelineFailure_validate :: "json \<Rightarrow> line_error list + PipelineFailure" where
  "PipelineFailure_validate payload =
     (case payload of
        JObj d \<Rightarrow>
          (case (required_str d ''stage'', required_str d ''error_message'',
                 required_str d ''logs'', required_str d ''timestamp'',
                 optional_dict d ''metadata'') of
             (Inr st, Inr em, Inr lg, Inr ts, Inr md) \<Rightarrow>
               Inr \<lparr>stage = st, error_message = em, logs = lg, timestamp = ts, metadata = md\<rparr>
           | (r1, r2, r3, r4, r5) \<Rightarrow>
               Inl (errors_of r1 @ errors_of r2 @ errors_of r3 @ errors_of r4 @ errors_of r5))
      | v \<Rightarrow> Inl [\<lparr>err_type = ''model_attributes_type'', err_loc = [''body''],
                  err_msg = ''Input should be a valid dictionary or object to extract fields from'',
                  err_input = v\<rparr>])"

subsection \<open>The constructor of \<^verbatim>\<open>HealingResult\<close>\<close>

text \<open>
  \<^verbatim>\<open>confidence: float = Field(..., ge=0.0, le=1.0)\<close> and
  \<^verbatim>\<open>iterations: int = Field(..., ge=0)\<close>: the constructor raises a \<^verbatim>\<open>ValidationError\<close>
  when a bound is broken, with one entry for each field at fault.
\<close>

definition check_confidence :: "real \<Rightarrow> line_error list" where
  "check_confidence c =
     (if \<not> 0 \<le> c then
        [\<lparr>err_type = ''greater_than_equal'', err_loc = [''confidence''],
          err_msg = ''Input should be greater than or equal to 0'', err_input = JFloat c\<rparr>]
      else if \<not> c \<le> 1 then
        [\<lparr>err_type = ''less_than_equal'', err_loc = [''confidence''],
          err_msg = ''Input should be less than or equal to 1'', err_input = JFloat c\<rparr>]
      else [])"

definition check_iterations :: "int \<Rightarrow> line_error list" where
  "check_iterations n =
     (if \<not> 0 \<le> n then
        [\<lparr>err_type = ''greater_than_equal'', err_loc = [''iterations''],
          err_msg = ''Input should be greater than or equal to 0'', err_input = JInt n\<rparr>]
      else [])"

definition HealingResult_init ::
    "bool \<Rightarrow> string option \<Rightarrow> real \<Rightarrow> int \<Rightarrow> string \<Rightarrow> exn + HealingResult" where
  "HealingResult_init s f c n m =
     (case check_confidence c @ check_iterations n of
        [] \<Rightarrow> Inr \<lparr>success = s, fix_applied = f, confidence = c, iterations = n, message = m\<rparr>
      | e # es \<Rightarrow> Inl (ValidationError ''HealingResult'' (e # es)))"

subsection \<open>The text of an exception\<close>

fun str_nat :: "nat \<Rightarrow> string" where
  "str_nat n =
     (if n < 10 then [char_of (48 + n)]
      else str_nat (n div 10) @ [char_of (48 + n mod 10)])"

fun join :: "string \<Rightarrow> string list \<Rightarrow> string" where
  "join sep [] = []"
| "join sep [x] = x"
| "join sep (x # y # ys) = x @ sep @ join sep (y # ys)"

definition str_line_error :: "line_error \<Rightarrow> string" where
  "str_line_error e =
     join ''.'' (err_loc e) @ [CHR 0x0A] @ ''  '' @ err_msg e @ '' [type='' @ err_type e @ '']''"

text \<open>
  \<^verbatim>\<open>str(e)\<close>. For a \<^verbatim>\<open>ValidationError\<close> it is the count of entries, the model's name and
  then, for each entry, the location and the message with the error type. Two parts of
  pydantic's text are left out: the echo \<^verbatim>\<open>, input_value=..., input_type=...\<close> that
  follows the type inside the brackets, and the line \<^verbatim>\<open>For further information visit\<close>
  with the address of the error's page that follows each entry. No statement below reads
  the text of a \<^verbatim>\<open>ValidationError\<close>.
\<close>

fun str_exn :: "exn \<Rightarrow> string" where
  "str_exn (Exception msg) = msg"
| "str_exn (ValidationError title errs) =
     str_nat (length errs) @ '' validation error'' @ (if length errs = 1 then [] else ''s'')
       @ '' for '' @ title @ concat (map (\<lambda>e. CHR 0x0A # str_line_error e) errs)"

section \<open>The logger\<close>

text \<open>
  The module's logger is the only state that outlives a request. The state is the
  list of the calls made on the logger so far, each with its level, the literal text of
  the f-string and the value interpolated after it.
\<close>

datatype levelname = DEBUG | INFO | ERROR

datatype log_value =
    Val_str string
  | Val_failure PipelineFailure
  | Val_result HealingResult

record log_call =
  log_level :: levelname
  log_text :: string
  log_value :: log_value

type_synonym logger = "log_call list"

definition logger_call :: "levelname \<Rightarrow> string \<Rightarrow> log_value \<Rightarrow> logger \<Rightarrow> logger" where
  "logger_call lv t v s = s @ [\<lparr>log_level = lv, log_text = t, log_value = v\<rparr>]"

section \<open>The route handlers\<close>

text \<open>
  \<^verbatim>\<open>datetime.utcnow().isoformat()\<close> reads the clock; the text it returns is the
  parameter \<open>now\<close> of the three handlers that use it.
\<close>

definition root :: "string \<Rightarrow> json" where
  "root now =
     JObj [(''service'', JStr ''AI Healing Pipeline Agent''),
           (''status'', JStr ''operational''),
           (''version'', JStr ''1.0.0''),
           (''timestamp'', JStr now)]"

definition health_check :: "string \<Rightarrow> json" where
  "health_check now =
     JObj [(''status'', JStr ''healthy''),
           (''timestamp'', JStr now)]"

definition get_metrics :: "string \<Rightarrow> json" where
  "get_metrics now =
     JObj [(''total_healings'', JInt 0),
           (''success_rate'', JFloat 0.0),
           (''average_resolution_time'', JFloat 0.0),
           (''timestamp'', JStr now)]"

record HTTPException =
  status_code :: nat
  detail :: string

text \<open>The body of the \<^verbatim>\<open>try\<close> block of \<^verbatim>\<open>heal_pipeline\<close>: it returns or raises.\<close>

definition heal_try :: "PipelineFailure \<Rightarrow> logger \<Rightarrow> (exn + HealingResult) \<times> logger" where
  "heal_try failure s =
     (case HealingResult_init True
             (Some ''Placeholder - Week 2 will implement AI agent'')
             0.95
             1
             (''Acknowledged failure in '' @ stage failure @ ''. Ready for AI implementation.'') of
        Inl e \<Rightarrow> (Inl e, s)
      | Inr result \<Rightarrow>
          (Inr result, logger_call INFO ''Healing result: '' (Val_result result) s))"

text \<open>
  The \<^verbatim>\<open>except Exception as e\<close> clause: what leaves the \<^verbatim>\<open>try\<close> block either is the
  result, which is returned, or an exception, which is logged and raised again as an
  \<^verbatim>\<open>HTTPException\<close>.
\<close>

definition heal_except ::
    "(exn + HealingResult) \<times> logger \<Rightarrow> (HTTPException + HealingResult) \<times> logger" where
  "heal_except r =
     (case r of
        (Inr result, s) \<Rightarrow> (Inr result, s)
      | (Inl e, s) \<Rightarrow>
          (Inl \<lparr>status_code = 500, detail = ''Internal error: '' @ str_exn e\<rparr>,
           logger_call ERROR ''Error during healing: '' (Val_str (str_exn e)) s))"

definition heal_pipeline ::
    "PipelineFailure \<Rightarrow> logger \<Rightarrow> (HTTPException + HealingResult) \<times> logger" where
  "heal_pipeline failure s =
     (let s1 = logger_call INFO ''Received healing request for stage: '' (Val_str (stage failure)) s;
          s2 = logger_call DEBUG ''Failure details: '' (Val_failure failure) s1
      in heal_except (heal_try failure s2))"

section \<open>The routes\<close>

text \<open>
  What FastAPI does around the handlers: a dictionary that a handler returns is sent
  with status 200; the decoded body of \<^verbatim>\<open>POST /heal\<close> is validated against
  \<^verbatim>\<open>PipelineFailure\<close> before the handler is called, and a body that fails is answered
  with status 422 and the list of errors under \<^verbatim>\<open>detail\<close>, each with the input at
  fault; a \<^verbatim>\<open>HealingResult\<close> that the handler returns is written out field by field
  (\<^verbatim>\<open>response_model\<close>); an \<^verbatim>\<open>HTTPException\<close> is answered with its status and its
  \<^verbatim>\<open>detail\<close>. A body that the decoder refuses is no value of \<open>json\<close> and is outside
  these definitions.

  The field \<open>body\<close> is the content of the answer, a JSON value; for the plain text
  that the server sends with its own status 500 it is that text as a string.
\<close>

record http_response =
  status :: nat
  body :: json

definition line_error_json :: "line_error \<Rightarrow> json" where
  "line_error_json e =
     JObj [(''type'', JStr (err_type e)),
           (''loc'', JArr (map JStr (err_loc e))),
           (''msg'', JStr (err_msg e)),
           (''input'', err_input e)]"

definition request_validation_error :: "line_error list \<Rightarrow> http_response" where
  "request_validation_error errs =
     \<lparr>status = 422, body = JObj [(''detail'', JArr (map line_error_json errs))]\<rparr>"

definition http_exception_response :: "HTTPException \<Rightarrow> http_response" where
  "http_exception_response h =
     \<lparr>status = status_code h, body = JObj [(''detail'', JStr (detail h))]\<rparr>"

definition HealingResult_json :: "HealingResult \<Rightarrow> json" where
  "HealingResult_json r =
     JObj [(''success'', JBool (success r)),
           (''fix_applied'', (case fix_applied r of None \<Rightarrow> JNull | Some f \<Rightarrow> JStr f)),
           (''confidence'', JFloat (confidence r)),
           (''iterations'', JInt (iterations r)),
           (''message'', JStr (message r))]"

text \<open>
  The bodies of the three \<^verbatim>\<open>GET\<close> routes hold the literals of the source and the text
  of the clock, which \<^verbatim>\<open>isoformat\<close> makes of ASCII digits and punctuation: they can
  always be written.
\<close>

definition GET_root :: "string \<Rightarrow> logger \<Rightarrow> http_response \<times> logger" where
  "GET_root now s = (\<lparr>status = 200, body = root now\<rparr>, s)"

definition GET_health :: "string \<Rightarrow> logger \<Rightarrow> http_response \<times> logger" where
  "GET_health now s = (\<lparr>status = 200, body = health_check now\<rparr>, s)"

definition GET_metrics :: "string \<Rightarrow> logger \<Rightarrow> http_response \<times> logger" where
  "GET_metrics now s = (\<lparr>status = 200, body = get_metrics now\<rparr>, s)"

text \<open>
  The answer to what \<^verbatim>\<open>heal_pipeline\<close> returned or raised, before it is written.
\<close>

definition heal_response ::
    "(HTTPException + HealingResult) \<times> logger \<Rightarrow> http_response \<times> logger" where
  "heal_response r =
     (case r of
        (Inr result, s) \<Rightarrow> (\<lparr>status = 200, body = HealingResult_json result\<rparr>, s)
      | (Inl h, s) \<Rightarrow> (http_exception_response h, s))"

text \<open>
  Writing the answer of \<^verbatim>\<open>POST /heal\<close>. When the content cannot be written, the
  exception is raised after the handler has returned, or inside the handler of the
  validation error, where no \<^verbatim>\<open>try\<close> of the source catches it: the server answers
  with status 500 and the plain text \<^verbatim>\<open>Internal Server Error\<close>.
\<close>

definition internal_server_error :: http_response where
  "internal_server_error = \<lparr>status = 500, body = JStr ''Internal Server Error''\<rparr>"

definition write_response :: "http_response \<Rightarrow> http_response" where
  "write_response r = (if json_renders (body r) then r else internal_server_error)"

definition POST_heal :: "json \<Rightarrow> logger \<Rightarrow> http_response \<times> logger" where
  "POST_heal payload s =
     (case PipelineFailure_validate payload of
        Inl errs \<Rightarrow> (write_response (request_validation_error errs), s)
      | Inr failure \<Rightarrow>
          (case heal_response (heal_pipeline failure s) of
             (r, s') \<Rightarrow> (write_response r, s')))"

text \<open>The value of a key in a response body that is an object.\<close>

definition body_field :: "http_response \<Rightarrow> string \<Rightarrow> json option" where
  "body_field r k = (case body r of JObj d \<Rightarrow> map_of d k | _ \<Rightarrow> None)"

section \<open>Facts about the validation and the handler\<close>

lemma HealingResult_init_fixed:
  "HealingResult_init True f 0.95 1 m =
     Inr \<lparr>success = True, fix_applied = f, confidence = 0.95, iterations = 1, message = m\<rparr>"
  by (simp add: HealingResult_init_def check_confidence_def check_iterations_def)


lemma heal_try_eq:
  "heal_try failure s =
     (Inr \<lparr>success = True, fix_applied = Some ''Placeholder - Week 2 will implement AI agent'',
            confidence = 0.95, iterations = 1,
            message = ''Acknowledged failure in '' @ stage failure @ ''. Ready for AI implementation.''\<rparr>,
      logger_call INFO ''Healing result: ''
        (Val_result \<lparr>success = True, fix_applied = Some ''Placeholder - Week 2 will implement AI agent'',
            confidence = 0.95, iterations = 1,
            message = ''Acknowledged failure in '' @ stage failure @ ''. Ready for AI implementation.''\<rparr>) s)"
  unfolding heal_try_def by (simp only: HealingResult_init_fixed sum.case)

lemma heal_pipeline_result:
  "fst (heal_pipeline failure s) =
     Inr \<lparr>success = True, fix_applied = Some ''Placeholder - Week 2 will implement AI agent'',
            confidence = 0.95, iterations = 1,
            message = ''Acknowledged failure in '' @ stage failure @ ''. Ready for AI implementation.''\<rparr>"
  by (simp add: heal_pipeline_def heal_except_def heal_try_eq Let_def)


lemma required_str_Inr_iff:
  "required_str d k = Inr v \<longleftrightarrow> map_of d k = Some (JStr v)"
  by (simp add: required_str_def split: option.splits json.splits)


lemma optional_dict_Inr_iff:
  "optional_dict d k = Inr md \<longleftrightarrow>
     (md = None \<and> (map_of d k = None \<or> map_of d k = Some JNull)) \<or>
     (\<exists>m. md = Some m \<and> map_of d k = Some (JObj m))"
  by (auto simp add: optional_dict_def split: option.splits json.splits)

lemma validate_all_Inr:
  "required_str d ''stage'' = Inr st \<Longrightarrow> required_str d ''error_message'' = Inr em \<Longrightarrow>
   required_str d ''logs'' = Inr lg \<Longrightarrow> required_str d ''timestamp'' = Inr ts \<Longrightarrow>
   optional_dict d ''metadata'' = Inr md \<Longrightarrow>
   PipelineFailure_validate (JObj d) =
     Inr \<lparr>stage = st, error_message = em, logs = lg, timestamp = ts, metadata = md\<rparr>"
  by (simp add: PipelineFailure_validate_def)

lemma validate_obj_Inl:
  assumes "required_str d ''stage'' = Inl e \<or> required_str d ''error_message'' = Inl e \<or>
           required_str d ''logs'' = Inl e \<or> required_str d ''timestamp'' = Inl e \<or>
           optional_dict d ''metadata'' = Inl e"
  shows "PipelineFailure_validate (JObj d) =
           Inl (errors_of (required_str d ''stage'') @ errors_of (required_str d ''error_message'') @
                errors_of (required_str d ''logs'') @ errors_of (required_str d ''timestamp'') @
                errors_of (optional_dict d ''metadata''))"
proof -
  obtain r1 r2 r3 r4 r5 where r:
    "r1 = required_str d ''stage''" "r2 = required_str d ''error_message''"
    "r3 = required_str d ''logs''" "r4 = required_str d ''timestamp''"
    "r5 = optional_dict d ''metadata''"
    by simp
  from assms have "r1 = Inl e \<or> r2 = Inl e \<or> r3 = Inl e \<or> r4 = Inl e \<or> r5 = Inl e"
    by (simp add: r)
  then have "(case (r1, r2, r3, r4, r5) of
               (Inr st, Inr em, Inr lg, Inr ts, Inr md) \<Rightarrow>
                 Inr \<lparr>stage = st, error_message = em, logs = lg, timestamp = ts, metadata = md\<rparr>
             | (r1, r2, r3, r4, r5) \<Rightarrow>
                 Inl (errors_of r1 @ errors_of r2 @ errors_of r3 @ errors_of r4 @ errors_of r5))
           = Inl (errors_of r1 @ errors_of r2 @ errors_of r3 @ errors_of r4 @ errors_of r5)"
    by (cases r1; cases r2; cases r3; cases r4; cases r5) simp_all
  then show ?thesis
    by (simp add: PipelineFailure_validate_def r)
qed

lemma validate_Inr_obj:
  "PipelineFailure_validate payload = Inr f \<Longrightarrow> \<exists>d. payload = JObj d"
  by (cases payload) (simp_all add: PipelineFailure_validate_def)

lemma validate_InrD:
  assumes "PipelineFailure_validate payload = Inr f"
  shows "\<exists>d. payload = JObj d \<and>
           map_of d ''stage'' = Some (JStr (stage f)) \<and>
           map_of d ''error_message'' = Some (JStr (error_message f)) \<and>
           map_of d ''logs'' = Some (JStr (logs f)) \<and>
           map_of d ''timestamp'' = Some (JStr (timestamp f)) \<and>
           optional_dict d ''metadata'' = Inr (metadata f)"
proof -
  obtain d where d: "payload = JObj d"
    using validate_Inr_obj [OF assms] by blast
  have no: "\<not> (required_str d ''stage'' = Inl e \<or> required_str d ''error_message'' = Inl e \<or>
                 required_str d ''logs'' = Inl e \<or> required_str d ''timestamp'' = Inl e \<or>
                 optional_dict d ''metadata'' = Inl e)" for e
  proof
    assume "required_str d ''stage'' = Inl e \<or> required_str d ''error_message'' = Inl e \<or>
            required_str d ''logs'' = Inl e \<or> required_str d ''timestamp'' = Inl e \<or>
            optional_dict d ''metadata'' = Inl e"
    from validate_obj_Inl [OF this] assms d show False by simp
  qed
  obtain st where st: "required_str d ''stage'' = Inr st"
    using no by (cases "required_str d ''stage''") auto
  obtain em where em: "required_str d ''error_message'' = Inr em"
    using no by (cases "required_str d ''error_message''") auto
  obtain lg where lg: "required_str d ''logs'' = Inr lg"
    using no by (cases "required_str d ''logs''") auto
  obtain ts where ts: "required_str d ''timestamp'' = Inr ts"
    using no by (cases "required_str d ''timestamp''") auto
  obtain md where md: "optional_dict d ''metadata'' = Inr md"
    using no by (cases "optional_dict d ''metadata''") auto
  have "f = \<lparr>stage = st, error_message = em, logs = lg, timestamp = ts, metadata = md\<rparr>"
    using validate_all_Inr [OF st em lg ts md] assms d by simp
  then show ?thesis
    using d st em lg ts md by (simp add: required_str_Inr_iff)
qed




subsection \<open>Strings and values that can be written\<close>

lemma has_surrogate_Cons: "c \<noteq> CHR 0xED \<Longrightarrow> has_surrogate (c # xs) = has_surrogate xs"
  by (cases xs) simp_all

lemma has_surrogate_append:
  "\<not> (0xA0 \<le> (of_char c :: nat) \<and> (of_char c :: nat) \<le> 0xBF) \<Longrightarrow>
   has_surrogate (xs @ c # ys) = (has_surrogate xs \<or> has_surrogate (c # ys))"
  by (induction xs rule: has_surrogate.induct) auto

lemma has_surrogate_message:
  "has_surrogate (''Acknowledged failure in '' @ st @ ''. Ready for AI implementation.'') =
     has_surrogate st"
  by (simp add: has_surrogate_Cons has_surrogate_append)

lemma verdict_renders:
  "json_renders (HealingResult_json
      \<lparr>success = True, fix_applied = Some ''Placeholder - Week 2 will implement AI agent'',
       confidence = 0.95, iterations = 1,
       message = ''Acknowledged failure in '' @ st @ ''. Ready for AI implementation.''\<rparr>) =
     (\<not> has_surrogate st)"
proof -
  have "json_renders (HealingResult_json
      \<lparr>success = True, fix_applied = Some ''Placeholder - Week 2 will implement AI agent'',
       confidence = 0.95, iterations = 1, message = m\<rparr>) = (\<not> has_surrogate m)" for m
    by (simp add: HealingResult_json_def)
  then show ?thesis
    by (simp only: has_surrogate_message)
qed






subsection \<open>The errors of an object\<close>




subsection \<open>The answers of \<^verbatim>\<open>POST /heal\<close>\<close>


lemma POST_heal_valid:
  "PipelineFailure_validate payload = Inr failure \<Longrightarrow>
   fst (POST_heal payload s) =
     (if has_surrogate (stage failure) then internal_server_error
      else \<lparr>status = 200,
            body = JObj [(''success'', JBool True),
                   (''fix_applied'', JStr ''Placeholder - Week 2 will implement AI agent''),
                   (''confidence'', JFloat 0.95),
                   (''iterations'', JInt 1),
                   (''message'', JStr (''Acknowledged failure in '' @ stage failure @ ''. Ready for AI implementation.''))]\<rparr>)"
proof -
  assume v: "PipelineFailure_validate payload = Inr failure"
  let ?r = "\<lparr>success = True, fix_applied = Some ''Placeholder - Week 2 will implement AI agent'',
             confidence = 0.95, iterations = 1,
             message = ''Acknowledged failure in '' @ stage failure @ ''. Ready for AI implementation.''\<rparr>"
  obtain x s' where h: "heal_pipeline failure s = (x, s')"
    by (cases "heal_pipeline failure s")
  with heal_pipeline_result [of failure s] have x: "x = Inr ?r"
    by simp
  have "fst (POST_heal payload s) = write_response \<lparr>status = 200, body = HealingResult_json ?r\<rparr>"
    by (simp add: POST_heal_def v h x heal_response_def)
  also have "\<dots> = (if has_surrogate (stage failure) then internal_server_error
                    else \<lparr>status = 200, body = HealingResult_json ?r\<rparr>)"
  proof -
    have vr: "json_renders (body \<lparr>status = 200, body = HealingResult_json ?r\<rparr>) =
                (\<not> has_surrogate (stage failure))"
      by (simp only: http_response.select_convs verdict_renders)
    show ?thesis
      by (cases "has_surrogate (stage failure)")
         (simp_all only: write_response_def vr if_True if_False not_True_eq_False not_False_eq_True)
  qed
  also have "HealingResult_json ?r =
      JObj [(''success'', JBool True),
            (''fix_applied'', JStr ''Placeholder - Week 2 will implement AI agent''),
            (''confidence'', JFloat 0.95),
            (''iterations'', JInt 1),
            (''message'', JStr (''Acknowledged failure in '' @ stage failure @ ''. Ready for AI implementation.''))]"
    by (simp add: HealingResult_json_def)
  finally show ?thesis .
qed




section \<open>The claims\<close>









text \<open>
  C4. The same valid payload sent twice to \<^verbatim>\<open>POST /heal\<close>, the second time in the
  state the first request left, gets the same answer, so the same \<^verbatim>\<open>success\<close> and the
  same \<^verbatim>\<open>confidence\<close>; and whatever was asked before (any state of the logger), the
  answer is the same. When \<^verbatim>\<open>stage\<close> holds no lone surrogate the two values are there:
  true and 0.95.
\<close>

theorem heal_same_payload_twice:
  assumes "PipelineFailure_validate payload = Inr failure"
  shows "fst (POST_heal payload (snd (POST_heal payload s))) = fst (POST_heal payload s) \<and>
         body_field (fst (POST_heal payload (snd (POST_heal payload s)))) ''success'' =
           body_field (fst (POST_heal payload s)) ''success'' \<and>
         body_field (fst (POST_heal payload (snd (POST_heal payload s)))) ''confidence'' =
           body_field (fst (POST_heal payload s)) ''confidence'' \<and>
         (\<forall>s'. fst (POST_heal payload s') = fst (POST_heal payload s)) \<and>
         (\<not> has_surrogate (stage failure) \<longrightarrow>
            body_field (fst (POST_heal payload s)) ''success'' = Some (JBool True) \<and>
            body_field (fst (POST_heal payload s)) ''confidence'' = Some (JFloat 0.95))"
proof -
  note r = POST_heal_valid [OF assms]
  have 1: "fst (POST_heal payload (snd (POST_heal payload s))) = fst (POST_heal payload s)"
    by (simp only: r)
  have 2: "body_field (fst (POST_heal payload (snd (POST_heal payload s)))) ''success'' =
           body_field (fst (POST_heal payload s)) ''success''"
    by (simp only: r)
  have 3: "body_field (fst (POST_heal payload (snd (POST_heal payload s)))) ''confidence'' =
           body_field (fst (POST_heal payload s)) ''confidence''"
    by (simp only: r)
  have 4: "\<forall>s'. fst (POST_heal payload s') = fst (POST_heal payload s)"
    by (simp only: r simp_thms)
  have 5: "\<not> has_surrogate (stage failure) \<longrightarrow>
            body_field (fst (POST_heal payload s)) ''success'' = Some (JBool True) \<and>
            body_field (fst (POST_heal payload s)) ''confidence'' = Some (JFloat 0.95)"
    by (simp add: r body_field_def)
  show ?thesis
    by (intro conjI, rule 1, rule 2, rule 3, rule 4, rule 5)
qed

theorem heal_same_payload_twice_witness:
  "fst (POST_heal (JObj [(''stage'', JStr ''deploy''), (''error_message'', JStr ''e''),
                         (''logs'', JStr ''l''), (''timestamp'', JStr ''t'')])
          (snd (POST_heal (JObj [(''stage'', JStr ''deploy''), (''error_message'', JStr ''e''),
                         (''logs'', JStr ''l''), (''timestamp'', JStr ''t'')]) []))) =
   fst (POST_heal (JObj [(''stage'', JStr ''deploy''), (''error_message'', JStr ''e''),
                         (''logs'', JStr ''l''), (''timestamp'', JStr ''t'')]) []) \<and>
   body_field (fst (POST_heal (JObj [(''stage'', JStr ''deploy''), (''error_message'', JStr ''e''),
                         (''logs'', JStr ''l''), (''timestamp'', JStr ''t'')]) [])) ''success'' =
     Some (JBool True)"
proof -
  let ?p = "JObj [(''stage'', JStr ''deploy''), (''error_message'', JStr ''e''),
                  (''logs'', JStr ''l''), (''timestamp'', JStr ''t'')]"
  let ?f = "\<lparr>stage = ''deploy'', error_message = ''e'', logs = ''l'', timestamp = ''t'',
             metadata = None\<rparr>"
  have v: "PipelineFailure_validate ?p = Inr ?f"
    by (simp add: PipelineFailure_validate_def required_str_def optional_dict_def)
  have e: "\<not> has_surrogate (stage ?f)"
    by simp
  note t = heal_same_payload_twice [OF v, of "[]"]
  from t have 1: "fst (POST_heal ?p (snd (POST_heal ?p []))) = fst (POST_heal ?p [])"
    by (elim conjE)
  from t have i: "\<not> has_surrogate (stage ?f) \<longrightarrow>
            body_field (fst (POST_heal ?p [])) ''success'' = Some (JBool True) \<and>
            body_field (fst (POST_heal ?p [])) ''confidence'' = Some (JFloat 0.95)"
    by (elim conjE)
  from i e have "body_field (fst (POST_heal ?p [])) ''success'' = Some (JBool True) \<and>
            body_field (fst (POST_heal ?p [])) ''confidence'' = Some (JFloat 0.95)"
    by (rule mp)
  then have 2: "body_field (fst (POST_heal ?p [])) ''success'' = Some (JBool True)"
    by (rule conjunct1)
  from 1 2 show ?thesis
    by (rule conjI)
qed

text \<open>
  C5 does not hold as it is written: a payload whose \<^verbatim>\<open>stage\<close> and \<^verbatim>\<open>timestamp\<close>
  are the empty string passes the validation and is answered with status 200, as
  \<^verbatim>\<open>test_heal_pipeline_empty_string\<close> expects for \<^verbatim>\<open>stage\<close>.
\<close>

theorem heal_accepts_empty_stage_and_timestamp:
  "PipelineFailure_validate
     (JObj [(''stage'', JStr []), (''error_message'', JStr ''x''),
            (''logs'', JStr ''y''), (''timestamp'', JStr [])]) =
     Inr \<lparr>stage = [], error_message = ''x'', logs = ''y'', timestamp = [], metadata = None\<rparr> \<and>
   status (fst (POST_heal
     (JObj [(''stage'', JStr []), (''error_message'', JStr ''x''),
            (''logs'', JStr ''y''), (''timestamp'', JStr [])]) [])) = 200"
proof -
  have v: "PipelineFailure_validate
     (JObj [(''stage'', JStr []), (''error_message'', JStr ''x''),
            (''logs'', JStr ''y''), (''timestamp'', JStr [])]) =
     Inr \<lparr>stage = [], error_message = ''x'', logs = ''y'', timestamp = [], metadata = None\<rparr>"
    by (simp add: PipelineFailure_validate_def required_str_def optional_dict_def)
  have "status (fst (POST_heal
     (JObj [(''stage'', JStr []), (''error_message'', JStr ''x''),
            (''logs'', JStr ''y''), (''timestamp'', JStr [])]) [])) = 200"
    by (simp add: POST_heal_valid [OF v])
  with v show ?thesis
    by (rule conjI)
qed

text \<open>
  C5, amended. \<^verbatim>\<open>POST /heal\<close> accepts an object exactly when \<^verbatim>\<open>stage\<close>,
  \<^verbatim>\<open>error_message\<close>, \<^verbatim>\<open>logs\<close> and \<^verbatim>\<open>timestamp\<close> are present and are strings, empty or
  not, and \<^verbatim>\<open>metadata\<close> is absent, \<^verbatim>\<open>null\<close> or an object.
\<close>

theorem validate_accepts_iff_strings:
  "(\<exists>failure. PipelineFailure_validate (JObj d) = Inr failure) \<longleftrightarrow>
     (\<exists>st. map_of d ''stage'' = Some (JStr st)) \<and>
     (\<exists>em. map_of d ''error_message'' = Some (JStr em)) \<and>
     (\<exists>lg. map_of d ''logs'' = Some (JStr lg)) \<and>
     (\<exists>ts. map_of d ''timestamp'' = Some (JStr ts)) \<and>
     (map_of d ''metadata'' = None \<or> map_of d ''metadata'' = Some JNull \<or>
      (\<exists>m. map_of d ''metadata'' = Some (JObj m)))"
  (is "?L \<longleftrightarrow> ?R")
proof
  assume ?L
  then obtain failure where "PipelineFailure_validate (JObj d) = Inr failure" ..
  from validate_InrD [OF this]
  have "map_of d ''stage'' = Some (JStr (stage failure)) \<and>
        map_of d ''error_message'' = Some (JStr (error_message failure)) \<and>
        map_of d ''logs'' = Some (JStr (logs failure)) \<and>
        map_of d ''timestamp'' = Some (JStr (timestamp failure)) \<and>
        optional_dict d ''metadata'' = Inr (metadata failure)"
    by (elim exE conjE) (simp only: json.inject simp_thms)
  then show ?R
    by (auto simp add: optional_dict_Inr_iff)
next
  assume r: ?R
  then obtain st em lg ts where
    f: "required_str d ''stage'' = Inr st" "required_str d ''error_message'' = Inr em"
       "required_str d ''logs'' = Inr lg" "required_str d ''timestamp'' = Inr ts"
    by (auto simp add: required_str_Inr_iff)
  from r obtain md where md: "optional_dict d ''metadata'' = Inr md"
    by (auto simp add: optional_dict_Inr_iff)
  from validate_all_Inr [OF f md] show ?L
    by (rule exI)
qed

theorem validate_accepts_iff_strings_witness:
  "\<exists>failure. PipelineFailure_validate
     (JObj [(''stage'', JStr []), (''error_message'', JStr []),
            (''logs'', JStr []), (''timestamp'', JStr [])]) = Inr failure"
  by (simp only: validate_accepts_iff_strings) simp


text \<open>
  C7. \<^verbatim>\<open>GET /health\<close> answers, at every time and in every state, with status 200,
  \<^verbatim>\<open>status\<close> equal to \<^verbatim>\<open>healthy\<close> and a \<^verbatim>\<open>timestamp\<close>; it reads nothing but the
  clock, has no failing branch and leaves the state as it was.
\<close>

theorem health_check_always_healthy:
  "GET_health now s =
     (\<lparr>status = 200, body = JObj [(''status'', JStr ''healthy''), (''timestamp'', JStr now)]\<rparr>, s) \<and>
   body_field (fst (GET_health now s)) ''status'' = Some (JStr ''healthy'') \<and>
   body_field (fst (GET_health now s)) ''timestamp'' = Some (JStr now)"
  by (simp add: GET_health_def health_check_def body_field_def)

text \<open>
  C8. \<^verbatim>\<open>GET /metrics\<close> answers with status 200 and the fixed values 0, 0.0 and 0.0
  beside a \<^verbatim>\<open>timestamp\<close>, in every state and also right after a \<^verbatim>\<open>POST /heal\<close>:
  nothing is counted.
\<close>

theorem get_metrics_static:
  "GET_metrics now s =
     (\<lparr>status = 200,
       body = JObj [(''total_healings'', JInt 0), (''success_rate'', JFloat 0.0),
                    (''average_resolution_time'', JFloat 0.0), (''timestamp'', JStr now)]\<rparr>, s) \<and>
   body_field (fst (GET_metrics now (snd (POST_heal payload s)))) ''total_healings'' = Some (JInt 0) \<and>
   body_field (fst (GET_metrics now (snd (POST_heal payload s)))) ''success_rate'' = Some (JFloat 0.0) \<and>
   body_field (fst (GET_metrics now (snd (POST_heal payload s)))) ''average_resolution_time'' =
     Some (JFloat 0.0) \<and>
   body_field (fst (GET_metrics now (snd (POST_heal payload s)))) ''timestamp'' = Some (JStr now)"
  by (simp add: GET_metrics_def get_metrics_def body_field_def)




text \<open>
  C10. Two payloads that pass the validation and have the same \<^verbatim>\<open>stage\<close> get the same
  response, status and body, whatever their other fields are and whatever was asked
  before.
\<close>

theorem heal_depends_on_stage_only:
  assumes "PipelineFailure_validate p1 = Inr f1"
      and "PipelineFailure_validate p2 = Inr f2"
      and "stage f1 = stage f2"
  shows "fst (POST_heal p1 s1) = fst (POST_heal p2 s2)"
  by (simp only: POST_heal_valid [OF assms(1)] POST_heal_valid [OF assms(2)] assms(3))

theorem heal_depends_on_stage_only_witness:
  "fst (POST_heal (JObj [(''stage'', JStr ''test''), (''error_message'', JStr ''AssertionError''),
                         (''logs'', JStr ''trace''), (''timestamp'', JStr ''2024-01-27T12:00:00Z'')]) []) =
   fst (POST_heal (JObj [(''stage'', JStr ''test''), (''error_message'', JStr []),
                         (''logs'', JStr ''other''), (''timestamp'', JStr ''yesterday''),
                         (''metadata'', JObj [(''commit'', JStr ''abc123'')])])
          [\<lparr>log_level = INFO, log_text = ''Received healing request for stage: '',
            log_value = Val_str ''build''\<rparr>])"
proof -
  have v1: "PipelineFailure_validate (JObj [(''stage'', JStr ''test''), (''error_message'', JStr ''AssertionError''),
                         (''logs'', JStr ''trace''), (''timestamp'', JStr ''2024-01-27T12:00:00Z'')])
           = Inr \<lparr>stage = ''test'', error_message = ''AssertionError'', logs = ''trace'',
                  timestamp = ''2024-01-27T12:00:00Z'', metadata = None\<rparr>"
    by (simp add: PipelineFailure_validate_def required_str_def optional_dict_def)
  have v2: "PipelineFailure_validate (JObj [(''stage'', JStr ''test''), (''error_message'', JStr []),
                         (''logs'', JStr ''other''), (''timestamp'', JStr ''yesterday''),
                         (''metadata'', JObj [(''commit'', JStr ''abc123'')])])
           = Inr \<lparr>stage = ''test'', error_message = [], logs = ''other'',
                  timestamp = ''yesterday'', metadata = Some [(''commit'', JStr ''abc123'')]\<rparr>"
    by (simp add: PipelineFailure_validate_def required_str_def optional_dict_def)
  have st: "stage \<lparr>stage = ''test'', error_message = ''AssertionError'', logs = ''trace'',
                  timestamp = ''2024-01-27T12:00:00Z'', metadata = None\<rparr> =
            stage \<lparr>stage = ''test'', error_message = [], logs = ''other'',
                  timestamp = ''yesterday'', metadata = Some [(''commit'', JStr ''abc123'')]\<rparr>"
    by simp
  show ?thesis
    by (rule heal_depends_on_stage_only [OF v1 v2 st])
qed

end
